theory Spec2Isabelle
  imports Main
begin

section \<open>Python values the server handles\<close>

text \<open>
  The server (src/server.py) handles Python strings, the values \<open>json.loads\<close> returns and
  the dictionaries it builds for requests and answers. A text is a \<open>string\<close>; one
  \<open>char\<close> stands for one character of the Python string. A float is kept as the text
  Python prints for it (\<open>JFloat ''0.01''\<close>), a dictionary as the list of its items in
  insertion order.
\<close>

datatype json =
    JNull
  | JBool bool
  | JInt int
  | JFloat string
  | JStr string
  | JArr "json list"
  | JObj "(string \<times> json) list"

text \<open>
  An exception of class \<open>Exception\<close>, with the text \<open>str(e)\<close> gives for it. The class matters
  at line 382 only, where \<open>KeyError\<close> has a handler of its own.
\<close>

datatype exn =
    KeyError string
  | AttributeError string
  | TypeError string
  | IndexError string
  | OtherError string

fun str_exn :: "exn \<Rightarrow> string" where
  "str_exn (KeyError m) = m"
| "str_exn (AttributeError m) = m"
| "str_exn (TypeError m) = m"
| "str_exn (IndexError m) = m"
| "str_exn (OtherError m) = m"

subsection \<open>Numbers and values as text\<close>

definition digit_char :: "nat \<Rightarrow> char" where
  "digit_char d = ''0123456789'' ! d"

function str_nat :: "nat \<Rightarrow> string" where
  "str_nat n = (if n < 10 then [digit_char n] else str_nat (n div 10) @ [digit_char (n mod 10)])"
  by pat_completeness auto
termination
  by (relation "measure id") auto

declare str_nat.simps [simp del]

definition str_int :: "int \<Rightarrow> string" where
  "str_int i = (if i < 0 then CHR ''-'' # str_nat (nat (- i)) else str_nat (nat i))"

text \<open>\<open>sep.join(parts)\<close> for parts that are strings.\<close>

fun join :: "string \<Rightarrow> string list \<Rightarrow> string" where
  "join sep [] = []"
| "join sep [x] = x"
| "join sep (x # y # ys) = x @ sep @ join sep (y # ys)"

definition hex_digit :: "nat \<Rightarrow> char" where
  "hex_digit d = ''0123456789abcdef'' ! d"

text \<open>
  \<open>repr\<close> of a string: single quotes, unless the string holds a single quote and no double
  quote; the quote and the backslash escaped, tab, newline and return by letter, every other
  character Python does not print as \<open>\xNN\<close>.
\<close>

definition py_printable :: "char \<Rightarrow> bool" where
  "py_printable c =
     (let n = (of_char c :: nat)
      in (32 \<le> n \<and> n < 127) \<or> (161 \<le> n \<and> n \<noteq> 173))"

definition repr_char :: "char \<Rightarrow> char \<Rightarrow> string" where
  "repr_char q c =
     (if c = q \<or> c = CHR 0x5C then [CHR 0x5C, c]
      else if c = CHR 0x09 then [CHR 0x5C, CHR ''t'']
      else if c = CHR 0x0A then [CHR 0x5C, CHR ''n'']
      else if c = CHR 0x0D then [CHR 0x5C, CHR ''r'']
      else if py_printable c then [c]
      else [CHR 0x5C, CHR ''x'', hex_digit (of_char c div 16), hex_digit (of_char c mod 16)])"

definition repr_str :: "string \<Rightarrow> string" where
  "repr_str s =
     (let q = (if CHR 0x27 \<in> set s \<and> CHR 0x22 \<notin> set s then CHR 0x22 else CHR 0x27)
      in q # concat (map (repr_char q) s) @ [q])"

text \<open>\<open>repr(v)\<close>, which \<open>str\<close> of a list or of a dictionary uses for the members.\<close>

fun py_repr :: "json \<Rightarrow> string"
  and py_repr_items :: "json list \<Rightarrow> string list"
  and py_repr_pairs :: "(string \<times> json) list \<Rightarrow> string list" where
  "py_repr JNull = ''None''"
| "py_repr (JBool b) = (if b then ''True'' else ''False'')"
| "py_repr (JInt i) = str_int i"
| "py_repr (JFloat r) = r"
| "py_repr (JStr s) = repr_str s"
| "py_repr (JArr xs) = ''['' @ join '', '' (py_repr_items xs) @ '']''"
| "py_repr (JObj kvs) = ''{'' @ join '', '' (py_repr_pairs kvs) @ ''}''"
| "py_repr_items [] = []"
| "py_repr_items (x # xs) = py_repr x # py_repr_items xs"
| "py_repr_pairs [] = []"
| "py_repr_pairs ((k, v) # kvs) = (repr_str k @ '': '' @ py_repr v) # py_repr_pairs kvs"

text \<open>\<open>str(v)\<close>, what an f-string puts in for \<open>{v}\<close>.\<close>

fun py_str :: "json \<Rightarrow> string" where
  "py_str (JStr s) = s"
| "py_str v = py_repr v"

fun type_name :: "json \<Rightarrow> string" where
  "type_name JNull = ''NoneType''"
| "type_name (JBool b) = ''bool''"
| "type_name (JInt i) = ''int''"
| "type_name (JFloat r) = ''float''"
| "type_name (JStr s) = ''str''"
| "type_name (JArr xs) = ''list''"
| "type_name (JObj kvs) = ''dict''"

definition quoted :: "string \<Rightarrow> string" where
  "quoted s = [CHR 0x27] @ s @ [CHR 0x27]"

subsection \<open>The operations the server applies to parsed values\<close>

text \<open>\<open>v.get(k, d)\<close>: the value under the key, \<open>d\<close> when the key is missing.\<close>

definition dict_get :: "(string \<times> json) list \<Rightarrow> string \<Rightarrow> json \<Rightarrow> json" where
  "dict_get kvs k d = (case map_of kvs k of None \<Rightarrow> d | Some v \<Rightarrow> v)"

text \<open>Only a dictionary has the method.\<close>

fun py_get :: "json \<Rightarrow> string \<Rightarrow> json \<Rightarrow> exn + json" where
  "py_get (JObj kvs) k d = Inr (dict_get kvs k d)"
| "py_get v k d =
     Inl (AttributeError (quoted (type_name v) @ '' object has no attribute '' @ quoted ''get''))"


text \<open>Running on after a step that may raise.\<close>

definition bind_exn :: "exn + 'a \<Rightarrow> ('a \<Rightarrow> exn + 'b) \<Rightarrow> exn + 'b" where
  "bind_exn m f = (case m of Inl e \<Rightarrow> Inl e | Inr x \<Rightarrow> f x)"

text \<open>\<open>try: body except Exception as e: handler\<close>.\<close>

definition try_except :: "exn + 'a \<Rightarrow> (exn \<Rightarrow> exn + 'a) \<Rightarrow> exn + 'a" where
  "try_except body handler = (case body of Inl e \<Rightarrow> handler e | Inr x \<Rightarrow> Inr x)"

text \<open>\<open>len(v)\<close>.\<close>

fun py_len :: "json \<Rightarrow> exn + nat" where
  "py_len (JStr s) = Inr (length s)"
| "py_len (JArr xs) = Inr (length xs)"
| "py_len (JObj kvs) = Inr (length kvs)"
| "py_len v = Inl (TypeError (''object of type '' @ quoted (type_name v) @ '' has no len()''))"

text \<open>The truth value of \<open>v\<close> in \<open>if v:\<close>.\<close>

fun truthy :: "json \<Rightarrow> bool" where
  "truthy JNull = False"
| "truthy (JBool b) = b"
| "truthy (JInt i) = (i \<noteq> 0)"
| "truthy (JFloat r) = (r \<noteq> ''0.0'' \<and> r \<noteq> ''-0.0'')"
| "truthy (JStr s) = (s \<noteq> [])"
| "truthy (JArr xs) = (xs \<noteq> [])"
| "truthy (JObj kvs) = (kvs \<noteq> [])"

text \<open>
  \<open>v[:3]\<close>. A dictionary takes the slice as a key: unhashable before Python 3.12, a key it
  does not have from 3.12 on (\<open>py312\<close>).
\<close>

fun py_slice3 :: "bool \<Rightarrow> json \<Rightarrow> exn + json" where
  "py_slice3 py312 (JArr xs) = Inr (JArr (take 3 xs))"
| "py_slice3 py312 (JStr s) = Inr (JStr (take 3 s))"
| "py_slice3 py312 (JObj kvs) =
     (if py312 then Inl (KeyError ''slice(None, 3, None)'')
      else Inl (TypeError (''unhashable type: '' @ quoted ''slice'')))"
| "py_slice3 py312 v = Inl (TypeError (quoted (type_name v) @ '' object is not subscriptable''))"

text \<open>The members \<open>for x in v\<close> (and \<open>enumerate(v)\<close>) runs over.\<close>

fun py_iter :: "json \<Rightarrow> exn + json list" where
  "py_iter (JArr xs) = Inr xs"
| "py_iter (JStr s) = Inr (map (\<lambda>c. JStr [c]) s)"
| "py_iter (JObj kvs) = Inr (map (\<lambda>kv. JStr (fst kv)) kvs)"
| "py_iter v = Inl (TypeError (quoted (type_name v) @ '' object is not iterable''))"

text \<open>\<open>v[0]\<close>. The keys of a parsed dictionary are strings, so it never has the key 0.\<close>

fun py_first :: "json \<Rightarrow> exn + json" where
  "py_first (JArr []) = Inl (IndexError ''list index out of range'')"
| "py_first (JArr (x # xs)) = Inr x"
| "py_first (JStr []) = Inl (IndexError ''string index out of range'')"
| "py_first (JStr (c # cs)) = Inr (JStr [c])"
| "py_first (JObj kvs) = Inl (KeyError ''0'')"
| "py_first v = Inl (TypeError (quoted (type_name v) @ '' object is not subscriptable''))"

text \<open>
  \<open>sep.join(v)\<close> for a parsed value: every member has to be a string; the first that is not
  raises, with its position.
\<close>

fun join_items :: "nat \<Rightarrow> json list \<Rightarrow> exn + string list" where
  "join_items i [] = Inr []"
| "join_items i (JStr s # xs) = bind_exn (join_items (Suc i) xs) (\<lambda>ss. Inr (s # ss))"
| "join_items i (x # xs) =
     Inl (TypeError (''sequence item '' @ str_nat i @ '': expected str instance, ''
                     @ type_name x @ '' found''))"

fun py_join :: "string \<Rightarrow> json \<Rightarrow> exn + string" where
  "py_join sep (JArr xs) = bind_exn (join_items 0 xs) (\<lambda>ss. Inr (join sep ss))"
| "py_join sep (JStr s) = Inr (join sep (map (\<lambda>c. [c]) s))"
| "py_join sep (JObj kvs) = Inr (join sep (map fst kvs))"
| "py_join sep v = Inl (TypeError ''can only join an iterable'')"

subsection \<open>Texts\<close>

text \<open>\<open>s.startswith(p)\<close> and \<open>sub in s\<close>.\<close>

definition starts_with :: "string \<Rightarrow> string \<Rightarrow> bool" where
  "starts_with s p = (take (length p) s = p)"

fun contains :: "string \<Rightarrow> string \<Rightarrow> bool" where
  "contains sub [] = (sub = [])"
| "contains sub (c # cs) = (starts_with (c # cs) sub \<or> contains sub cs)"

text \<open>The characters \<open>strip\<close> and \<open>rstrip\<close> remove: Python's white space.\<close>

definition py_isspace :: "char \<Rightarrow> bool" where
  "py_isspace c =
     (let n = (of_char c :: nat)
      in (9 \<le> n \<and> n \<le> 13) \<or> (28 \<le> n \<and> n \<le> 32) \<or> n = 133 \<or> n = 160)"

definition lstrip :: "string \<Rightarrow> string" where
  "lstrip s = dropWhile py_isspace s"

definition rstrip :: "string \<Rightarrow> string" where
  "rstrip s = rev (dropWhile py_isspace (rev s))"

definition strip :: "string \<Rightarrow> string" where
  "strip s = rstrip (lstrip s)"

definition lower_char :: "char \<Rightarrow> char" where
  "lower_char c =
     (let n = (of_char c :: nat)
      in if (65 \<le> n \<and> n \<le> 90) \<or> (192 \<le> n \<and> n \<le> 222 \<and> n \<noteq> 215) then char_of (n + 32) else c)"

definition lower :: "string \<Rightarrow> string" where
  "lower s = map lower_char s"

text \<open>\<open>s.split('\n')\<close>: always at least one line.\<close>

fun split_lines :: "string \<Rightarrow> string list" where
  "split_lines [] = [[]]"
| "split_lines (c # cs) =
     (if c = CHR 0x0A then [] # split_lines cs
      else (case split_lines cs of [] \<Rightarrow> [[c]] | l # ls \<Rightarrow> (c # l) # ls))"

text \<open>
  The two symbols of the messages that are no characters of the model: the cross mark
  (U+274C) and the information sign (U+2139, U+FE0F), written as their UTF-8 bytes.
\<close>

definition cross_mark :: string where
  "cross_mark = [CHR 0xE2, CHR 0x9D, CHR 0x8C]"

definition info_mark :: string where
  "info_mark = [CHR 0xE2, CHR 0x84, CHR 0xB9, CHR 0xEF, CHR 0xB8, CHR 0x8F]"

definition nl :: string where
  "nl = [CHR 0x0A]"

section \<open>The world outside the server\<close>

text \<open>
  What the server reads and calls and does not define: the environment variable, the HTTP
  client, \<open>json.loads\<close>, and the HTML parser with the markdown converter.
\<close>

record response =
  status :: int
  reason :: "string option"
  content_type :: "string option"
  response_text :: string

datatype request =
    HttpGet string "(string \<times> string) list option"
  | HttpPost string "(string \<times> string) list option" json

datatype loads_result = JSONDecodeError string | LoadsRaised exn | Parsed json

record world =
  session_cookie :: "string option"
  http :: "request \<Rightarrow> exn + response"
  json_loads :: "string \<Rightarrow> loads_result"
  html_to_markdown :: "string \<Rightarrow> exn + string"
  py312 :: bool

text \<open>The answer every tool gives: \<open>{"content": [{"type": "text", "text": t}]}\<close>.\<close>

definition envelope :: "string \<Rightarrow> json" where
  "envelope t = JObj [(''content'', JArr [JObj [(''type'', JStr ''text''), (''text'', JStr t)]])]"

section \<open>AuthManager\<close>

definition get_auth_headers :: "world \<Rightarrow> (string \<times> string) list option" where
  "get_auth_headers w =
     (case session_cookie w of
        None \<Rightarrow> None
      | Some auth_cookie \<Rightarrow>
          if auth_cookie \<noteq> [] then Some [(''_oauth2_proxy'', auth_cookie)] else None)"

definition is_authenticated :: "world \<Rightarrow> bool" where
  "is_authenticated w = (case session_cookie w of None \<Rightarrow> False | Some c \<Rightarrow> c \<noteq> [])"


section \<open>search\<close>

subsection \<open>The request payload (lines 203 to 257)\<close>

definition weight_rule :: "string \<Rightarrow> string \<Rightarrow> json \<Rightarrow> json" where
  "weight_rule field v weight =
     JObj [(''filter'', JObj [(''term'', JObj [(field, JStr v)])]), (''weight'', weight)]"

definition base_query :: "string \<Rightarrow> json" where
  "base_query term =
     JObj [(''function_score'', JObj [
       (''query'', JObj [(''simple_query_string'', JObj [
          (''fields'', JArr [JStr ''title^5'', JStr ''uri^5'', JStr ''description^5'', JStr ''text'']),
          (''default_operator'', JStr ''AND''),
          (''query'', JStr term)])]),
       (''functions'', JArr [
          weight_rule ''type'' ''Intranet'' (JInt 10),
          weight_rule ''type'' ''Blog'' (JFloat ''0.01''),
          weight_rule ''breadcrumb_1'' ''changes'' (JFloat ''0.0001''),
          weight_rule ''breadcrumb_1'' ''api'' (JFloat ''0.0001'')])])]"

text \<open>The loop of lines 231 to 234, \<open>n\<close> counting up from 1.\<close>

fun breadcrumb_clauses :: "nat \<Rightarrow> json list \<Rightarrow> json list" where
  "breadcrumb_clauses n [] = []"
| "breadcrumb_clauses n (breadcrumb # rest) =
     JObj [(''match'', JObj [(''breadcrumb_'' @ str_nat n, breadcrumb)])]
       # breadcrumb_clauses (n + 1) rest"

definition must_clauses :: "string \<Rightarrow> string \<Rightarrow> json list \<Rightarrow> json list" where
  "must_clauses term type_filter breadcrumb_filter =
     [base_query term]
     @ (if type_filter \<noteq> [] then [JObj [(''term'', JObj [(''type'', JStr type_filter)])]] else [])
     @ (if breadcrumb_filter \<noteq> [] then breadcrumb_clauses 1 breadcrumb_filter else [])"

definition build_query :: "string \<Rightarrow> string \<Rightarrow> json list \<Rightarrow> json" where
  "build_query term type_filter breadcrumb_filter =
     (let clauses = must_clauses term type_filter breadcrumb_filter
      in if length clauses > 1 then JObj [(''bool'', JObj [(''must'', JArr clauses)])]
         else base_query term)"

definition build_payload :: "string \<Rightarrow> int \<Rightarrow> int \<Rightarrow> string \<Rightarrow> json list \<Rightarrow> json" where
  "build_payload term start_index page_size type_filter breadcrumb_filter =
     JObj [
       (''from'', JInt start_index),
       (''size'', JInt page_size),
       (''sort'', JArr [JStr ''_score'']),
       (''_source'', JObj [(''excludes'', JArr [JStr ''text'', JStr ''body''])]),
       (''query'', build_query term type_filter breadcrumb_filter),
       (''highlight'', JObj [(''fields'', JObj [
          (''body'', JObj [(''type'', JStr ''unified''), (''number_of_fragments'', JInt 1),
                          (''no_match_size'', JInt 200), (''fragment_size'', JInt 150)]),
          (''title'', JObj [(''type'', JStr ''unified''), (''number_of_fragments'', JInt 1)])])])]"

subsection \<open>The report (lines 336 to 387)\<close>

text \<open>
  The debug line of lines 343 to 345 is an f-string, evaluated whatever the log level: it
  reads \<open>_source\<close> of the first three hits and three of its fields, and raises where
  they have no \<open>get\<close>.
\<close>

definition probe_hit :: "json \<Rightarrow> exn + unit" where
  "probe_hit hit =
     bind_exn (py_get hit ''_source'' (JObj [])) (\<lambda>source.
     bind_exn (py_get source ''type'' (JStr ''N/A'')) (\<lambda>_.
     bind_exn (py_get source ''breadcrumb_1'' (JStr ''N/A'')) (\<lambda>_.
     bind_exn (py_get source ''title'' (JStr ''N/A'')) (\<lambda>_. Inr ()))))"

fun probe_hits :: "json list \<Rightarrow> exn + unit" where
  "probe_hits [] = Inr ()"
| "probe_hits (hit # rest) = bind_exn (probe_hit hit) (\<lambda>_. probe_hits rest)"

text \<open>One pass of the loop of lines 357 to 375: the entry of one hit, numbered \<open>n\<close>.\<close>

definition render_hit :: "int \<Rightarrow> json \<Rightarrow> exn + string" where
  "render_hit n hit =
     bind_exn (py_get hit ''_source'' (JObj [])) (\<lambda>source.
     bind_exn (py_get source ''title'' (JStr [])) (\<lambda>title.
     bind_exn (py_get source ''description'' (JStr [])) (\<lambda>description.
     bind_exn (py_get source ''url'' (JStr ''No URL'')) (\<lambda>uri.
     bind_exn (py_get source ''type'' (JStr ''Unknown'')) (\<lambda>ty.
     bind_exn (py_get source ''breadcrumb'' (JArr [])) (\<lambda>breadcrumb.
     bind_exn (py_join '' / '' breadcrumb) (\<lambda>path.
     bind_exn (py_get hit ''highlight'' (JObj [])) (\<lambda>highlight.
     bind_exn (py_get highlight ''body'' (JArr [JStr []])) (\<lambda>fragments.
     bind_exn (py_first fragments) (\<lambda>excerpt.
       Inr (str_int n @ ''. **['' @ py_str title @ ''](''  @ py_str uri @ '')**'' @ nl
            @ ''   **Type:** '' @ py_str ty @ nl
            @ ''   **Breadcrumb:** '' @ path @ nl
            @ (if description \<noteq> JStr [] then ''   **Description:** '' @ py_str description @ nl
               else [])
            @ (if truthy excerpt then ''   **Excerpt:** '' @ py_str excerpt @ nl else [])
            @ nl)))))))))))"

fun render_hits :: "int \<Rightarrow> json list \<Rightarrow> exn + string" where
  "render_hits n [] = Inr []"
| "render_hits n (hit # rest) =
     bind_exn (render_hit n hit) (\<lambda>entry.
     bind_exn (render_hits (n + 1) rest) (\<lambda>entries. Inr (entry @ entries)))"

definition public_note :: string where
  "public_note = info_mark @ '' **Note:** Searching public documentation only. For intranet access, set the INTRANET_SESSION_COOKIE environment variable.'' @ nl @ nl"

definition summary_line :: "nat \<Rightarrow> json \<Rightarrow> int \<Rightarrow> string" where
  "summary_line count total_hits start_index =
     ''Showing '' @ str_nat count @ '' out of '' @ py_str total_hits @ '' search results''
     @ (if start_index > 0 then '', starting at '' @ str_int (start_index + 1) else [])"

text \<open>The body of the \<open>try\<close> of line 336, up to the \<open>return\<close> of line 379.\<close>

definition render_results :: "bool \<Rightarrow> bool \<Rightarrow> string \<Rightarrow> int \<Rightarrow> json \<Rightarrow> exn + string" where
  "render_results v312 authenticated term start_index response_json =
     bind_exn (py_get response_json ''hits'' (JObj [])) (\<lambda>h1.
     bind_exn (py_get h1 ''hits'' (JArr [])) (\<lambda>hits.
     bind_exn (py_get response_json ''hits'' (JObj [])) (\<lambda>h2.
     bind_exn (py_get h2 ''total'' (JInt 0)) (\<lambda>total_hits.
     bind_exn (py_len hits) (\<lambda>count.
     bind_exn (if truthy hits
               then bind_exn (py_slice3 v312 hits) (\<lambda>first3.
                    bind_exn (py_iter first3) probe_hits)
               else Inr ()) (\<lambda>_.
     bind_exn (py_iter hits) (\<lambda>items.
     bind_exn (render_hits (start_index + 1) items) (\<lambda>entries.
       Inr (''# Search results for '' @ term @ nl @ nl
            @ (if \<not> authenticated then public_note else [])
            @ summary_line count total_hits start_index @ nl @ nl
            @ entries)))))))))"

text \<open>Lines 336 to 387: the report, or the answer of the \<open>KeyError\<close> handler.\<close>

definition process_results :: "bool \<Rightarrow> bool \<Rightarrow> string \<Rightarrow> int \<Rightarrow> json \<Rightarrow> exn + json" where
  "process_results v312 authenticated term start_index response_json =
     (case render_results v312 authenticated term start_index response_json of
        Inr body \<Rightarrow> Inr (envelope body)
      | Inl (KeyError k) \<Rightarrow>
          Inr (envelope (cross_mark @ '' Unexpected response format. Missing key: '' @ k))
      | Inl e \<Rightarrow> Inl e)"


subsection \<open>The request and the classification of the response (lines 186 to 393)\<close>

definition public_endpoint :: string where
  "public_endpoint = ''https://docs.giantswarm.io/searchapi/''"

definition intranet_endpoint :: string where
  "intranet_endpoint = ''https://intranet.giantswarm.io/searchapi/''"

definition sign_in_marker :: string where
  "sign_in_marker = ''Sign in to GitHub''"

definition str_reason :: "string option \<Rightarrow> string" where
  "str_reason r = (case r of None \<Rightarrow> ''None'' | Some s \<Rightarrow> s)"

definition intranet_filter_message :: string where
  "intranet_filter_message = cross_mark @ '' Cannot search Intranet resources without authentication. Please set the INTRANET_SESSION_COOKIE environment variable or search without the Intranet filter.''"

definition cookie_expired_message :: string where
  "cookie_expired_message = cross_mark @ '' Authentication expired. Your INTRANET_SESSION_COOKIE has expired.'' @ nl @ nl @ ''To search public documentation, remove the INTRANET_SESSION_COOKIE environment variable and try again.'' @ nl @ nl @ ''To continue accessing intranet resources, update INTRANET_SESSION_COOKIE with a fresh cookie value.''"

definition auth_required_message :: string where
  "auth_required_message = cross_mark @ '' Authentication required for this resource. Please set the INTRANET_SESSION_COOKIE environment variable.''"

definition html_instead_message :: string where
  "html_instead_message = cross_mark @ '' Got HTML response instead of expected JSON. The search endpoint may be unavailable or requires authentication.''"

definition invalid_json_message :: "response \<Rightarrow> string" where
  "invalid_json_message r =
     cross_mark @ '' Invalid JSON response from server.'' @ nl @ nl
     @ ''Response status: '' @ str_int (status r) @ nl
     @ ''Response preview: '' @ take 200 (response_text r)"

text \<open>Lines 284 to 387, once the response and its text have arrived.\<close>

definition search_response :: "world \<Rightarrow> bool \<Rightarrow> string \<Rightarrow> int \<Rightarrow> response \<Rightarrow> exn + json" where
  "search_response w authenticated term start_index r =
     (case json_loads w (response_text r) of
        JSONDecodeError m \<Rightarrow> Inr (envelope (invalid_json_message r))
      | LoadsRaised e \<Rightarrow> Inl e
      | Parsed response_json \<Rightarrow>
          if contains sign_in_marker (response_text r) \<or> status r = 401 then
            (if authenticated then Inr (envelope cookie_expired_message)
             else Inr (envelope auth_required_message))
          else if starts_with (strip (response_text r)) ''<'' then
            (if authenticated then Inr (envelope cookie_expired_message)
             else Inr (envelope html_instead_message))
          else if status r \<noteq> 200 then
            Inr (envelope (cross_mark @ '' HTTP '' @ str_int (status r) @ '': ''
                           @ str_reason (reason r) @ ''. Please try again.''))
          else process_results (py312 w) authenticated term start_index response_json)"

text \<open>
  A tool returns the requests it has sent, in order, and its answer; \<open>Inl\<close> would be an
  exception that leaves the tool.
\<close>

type_synonym outcome = "request list \<times> (exn + json)"

text \<open>The one request of search: the endpoint, the cookie when there is one, the payload.\<close>

definition search_url :: "world \<Rightarrow> string" where
  "search_url w = (if is_authenticated w then intranet_endpoint else public_endpoint)"

definition search_request :: "world \<Rightarrow> string \<Rightarrow> int \<Rightarrow> int \<Rightarrow> string \<Rightarrow> json list \<Rightarrow> request" where
  "search_request w term start_index page_size type_filter breadcrumb_filter =
     (let payload = build_payload term start_index page_size type_filter breadcrumb_filter;
          auth_config = (if is_authenticated w then get_auth_headers w else None)
      in HttpPost (search_url w) auth_config payload)"

text \<open>
  Lines 186 to 393. What runs before the \<open>try\<close> of line 267 (the choice of the endpoint,
  the payload, the debug lines that format it) raises for no term, numbers, filter text and
  list of parsed values; everything after it runs inside the \<open>try\<close>.
\<close>

definition search :: "world \<Rightarrow> string \<Rightarrow> int \<Rightarrow> int \<Rightarrow> string \<Rightarrow> json list \<Rightarrow> outcome" where
  "search w term start_index page_size type_filter breadcrumb_filter =
     (let authenticated = is_authenticated w;
          url = search_url w
      in if \<not> authenticated \<and> type_filter = ''Intranet'' then
           ([], Inr (envelope intranet_filter_message))
         else
           let req = search_request w term start_index page_size type_filter breadcrumb_filter
           in ([req],
               try_except
                 (bind_exn (http w req) (search_response w authenticated term start_index))
                 (\<lambda>error. Inr (envelope (''Error accessing '' @ url @ '': '' @ str_exn error)))))"



section \<open>Reading a page\<close>

subsection \<open>Cleaning the converted text (lines 130 to 146)\<close>

text \<open>The loop over the lines; \<open>prev_empty\<close> is the loop's variable.\<close>

fun cleaned_lines :: "bool \<Rightarrow> string list \<Rightarrow> string list" where
  "cleaned_lines prev_empty [] = []"
| "cleaned_lines prev_empty (line # rest) =
     (let line' = rstrip line; is_empty = (length line' = 0)
      in if is_empty \<and> prev_empty then cleaned_lines prev_empty rest
         else line' # cleaned_lines is_empty rest)"

definition clean_whitespace :: "string \<Rightarrow> string" where
  "clean_whitespace markdown_content =
     strip (join nl (cleaned_lines False (split_lines markdown_content)))"

subsection \<open>The fetch and the classification of the response (lines 44 to 168)\<close>

definition content_header :: "string \<Rightarrow> string" where
  "content_header url = ''# Content from '' @ url @ nl @ nl"

definition auth_failed_message :: string where
  "auth_failed_message = cross_mark @ '' Authentication failed or expired. Please update your INTRANET_SESSION_COOKIE environment variable with a fresh cookie value.''"

text \<open>The \<open>try\<close> of lines 101 to 155, without its handler.\<close>

definition convert_content :: "world \<Rightarrow> string \<Rightarrow> response \<Rightarrow> exn + json" where
  "convert_content w url r =
     (let ctype = lower (case content_type r of None \<Rightarrow> [] | Some c \<Rightarrow> c)
      in if contains ''html'' ctype then
           bind_exn (html_to_markdown w (response_text r)) (\<lambda>markdown_content.
             Inr (envelope (content_header url @ clean_whitespace markdown_content)))
         else Inr (envelope (content_header url @ response_text r)))"

definition page_response :: "world \<Rightarrow> string \<Rightarrow> response \<Rightarrow> exn + json" where
  "page_response w url r =
     (if contains sign_in_marker (response_text r) \<or> status r = 401 then
        Inr (envelope auth_failed_message)
      else if status r = 404 then Inr (envelope (cross_mark @ '' Page not found: '' @ url))
      else if status r \<noteq> 200 then
        Inr (envelope (cross_mark @ '' HTTP '' @ str_int (status r) @ '': ''
                       @ str_reason (reason r) @ ''. Please check the URL or try again.''))
      else try_except (convert_content w url r)
             (\<lambda>e. Inr (envelope (content_header url @ response_text r))))"

definition read_url_content :: "world \<Rightarrow> string \<Rightarrow> string \<Rightarrow> outcome" where
  "read_url_content w url url_description =
     (let auth_config = get_auth_headers w;
          req = HttpGet url auth_config
      in ([req],
          try_except (bind_exn (http w req) (page_response w url))
            (\<lambda>error. Inr (envelope (''Error accessing '' @ url @ '': '' @ str_exn error)))))"


definition read_handbook_url :: "world \<Rightarrow> string \<Rightarrow> outcome" where
  "read_handbook_url w url =
     (if \<not> starts_with url ''https://handbook.giantswarm.io/'' then
        ([], Inr (envelope (cross_mark @ '' URL must be from the Giant Swarm handbook (https://handbook.giantswarm.io/).'')))
      else read_url_content w url ''Handbook'')"


section \<open>Reading the built query\<close>

text \<open>
  The match clauses of a query: the members of the form \<open>{"match": ...}\<close> of the list under
  \<open>bool\<close>, \<open>must\<close>; a query that is no such conjunction has none.
\<close>

fun is_match :: "json \<Rightarrow> bool" where
  "is_match (JObj [(k, v)]) = (k = ''match'')"
| "is_match v = False"

fun match_clauses :: "json \<Rightarrow> json list" where
  "match_clauses (JObj [(k, JObj [(k', JArr clauses)])]) =
     (if k = ''bool'' \<and> k' = ''must'' then filter is_match clauses else [])"
| "match_clauses q = []"

section \<open>Sample answers of the search endpoint\<close>

definition dq :: "string \<Rightarrow> string" where
  "dq s = CHR 0x22 # s @ [CHR 0x22]"

text \<open>
  The answer of the search endpoint with one hit,
  \<open>{"hits":{"hits":[{"_source":{"title":"A","url":"u","type":"Docs","breadcrumb":["x","y"]}}],"total":1}}\<close>,
  and what \<open>json.loads\<close> makes of it.
\<close>

definition one_hit_text :: string where
  "one_hit_text =
     ''{'' @ dq ''hits'' @ '':{'' @ dq ''hits'' @ '':[{'' @ dq ''_source'' @ '':{''
     @ dq ''title'' @ '':'' @ dq ''A'' @ '','' @ dq ''url'' @ '':'' @ dq ''u'' @ '',''
     @ dq ''type'' @ '':'' @ dq ''Docs'' @ '','' @ dq ''breadcrumb'' @ '':['' @ dq ''x'' @ '',''
     @ dq ''y'' @ '']}}],'' @ dq ''total'' @ '':1}}''"

definition one_hit_json :: json where
  "one_hit_json =
     JObj [(''hits'', JObj [
       (''hits'', JArr [JObj [(''_source'', JObj [
          (''title'', JStr ''A''), (''url'', JStr ''u''), (''type'', JStr ''Docs''),
          (''breadcrumb'', JArr [JStr ''x'', JStr ''y''])])]]),
       (''total'', JInt 1)])]"

definition ok_json :: "string \<Rightarrow> response" where
  "ok_json t =
     \<lparr>status = 200, reason = Some ''OK'', content_type = Some ''application/json'',
      response_text = t\<rparr>"

section \<open>A server to run the tools against\<close>

text \<open>
  A world in which every request is answered with the response \<open>r\<close>. Of \<open>json.loads\<close> it
  knows the texts used below: the empty object and the answer with one hit parse, the other
  text is a page of HTML, which is no JSON. The converter hands its input back.
\<close>

definition sample_loads :: "string \<Rightarrow> loads_result" where
  "sample_loads t =
     (if t = ''{}'' then Parsed (JObj [])
      else if t = one_hit_text then Parsed one_hit_json
      else JSONDecodeError ''Expecting value: line 1 column 1 (char 0)'')"

definition answering :: "string option \<Rightarrow> response \<Rightarrow> world" where
  "answering cookie r =
     \<lparr>session_cookie = cookie, http = (\<lambda>q. Inr r), json_loads = sample_loads,
      html_to_markdown = (\<lambda>html. Inr html), py312 = True\<rparr>"

definition sign_in_page :: response where
  "sign_in_page =
     \<lparr>status = 200, reason = Some ''OK'', content_type = Some ''text/html; charset=utf-8'',
      response_text = ''<html><head><title>Sign in to GitHub</title></head></html>''\<rparr>"

definition broken_page :: response where
  "broken_page =
     \<lparr>status = 200, reason = Some ''OK'', content_type = Some ''text/HTML'',
      response_text = ''<p>unclosed''\<rparr>"

text \<open>A hit whose highlight has an empty list of fragments.\<close>

definition no_excerpt_hit :: json where
  "no_excerpt_hit = JObj [(''highlight'', JObj [(''body'', JArr [])])]"

section \<open>The cleaning of converted text, in the words of the specification\<close>

text \<open>
  Following the specification (4.5): "collapsing any run of multiple consecutive blank lines
  down to a single blank line, trimming leading/trailing blank lines". \<open>collapse_runs\<close>
  replaces every run of blank lines by one blank line; \<open>drop_leading_blank\<close> and
  \<open>drop_trailing_blank\<close> trim. \<open>lstrip_first\<close> is what \<open>strip\<close> does beyond trimming blank
  lines: it removes the white space in front of the first line that is left.
\<close>

function collapse_runs :: "string list \<Rightarrow> string list" where
  "collapse_runs [] = []"
| "collapse_runs (l # ls) =
     (if l = [] then [] # collapse_runs (dropWhile (\<lambda>x. x = []) ls) else l # collapse_runs ls)"
  by pat_completeness auto
termination
  by (relation "measure length") (auto simp: length_dropWhile_le less_Suc_eq_le)

definition drop_leading_blank :: "string list \<Rightarrow> string list" where
  "drop_leading_blank ls = dropWhile (\<lambda>x. x = []) ls"

definition drop_trailing_blank :: "string list \<Rightarrow> string list" where
  "drop_trailing_blank ls = rev (dropWhile (\<lambda>x. x = []) (rev ls))"

fun lstrip_first :: "string list \<Rightarrow> string list" where
  "lstrip_first [] = []"
| "lstrip_first (l # ls) = lstrip l # ls"

text \<open>Two blank lines in a row.\<close>

fun adjacent_blank :: "string list \<Rightarrow> bool" where
  "adjacent_blank [] = False"
| "adjacent_blank [x] = False"
| "adjacent_blank (a # b # rest) = ((a = [] \<and> b = []) \<or> adjacent_blank (b # rest))"

text \<open>The lines of the cleaned text.\<close>

definition normal_lines :: "string \<Rightarrow> string list" where
  "normal_lines markdown_content =
     drop_trailing_blank (lstrip_first (drop_leading_blank
       (collapse_runs (map rstrip (split_lines markdown_content)))))"

text \<open>A converted text with blank lines in front, a run of three in the middle and two at the end.\<close>

definition spaced_markdown :: string where
  "spaced_markdown = nl @ nl @ ''Title  '' @ nl @ nl @ nl @ nl @ ''Body'' @ nl @ nl"

definition spaced_page :: response where
  "spaced_page =
     \<lparr>status = 200, reason = Some ''OK'', content_type = Some ''text/html'',
      response_text = ''<h1>Title</h1><p>Body</p>''\<rparr>"

section \<open>Properties of the query\<close>

lemma dict_get_Nil [simp]: "dict_get [] k d = d"
  by (simp add: dict_get_def)

lemma dict_get_Cons [simp]:
  "dict_get ((k', v) # kvs) k d = (if k = k' then v else dict_get kvs k d)"
  by (simp add: dict_get_def)


lemma filter_breadcrumb_clauses:
  "filter is_match (breadcrumb_clauses n bs) = breadcrumb_clauses n bs"
  by (induction bs arbitrary: n) simp_all

lemma breadcrumb_clauses_enumerate:
  "breadcrumb_clauses n bs =
     map (\<lambda>(i, b). JObj [(''match'', JObj [(''breadcrumb_'' @ str_nat i, b)])]) (enumerate n bs)"
  by (induction bs arbitrary: n) simp_all

lemma not_match_base: "\<not> is_match (base_query term)"
  by (simp add: base_query_def)

lemma match_clauses_base: "match_clauses (base_query term) = []"
  by (simp add: base_query_def)

lemma match_clauses_must:
  "match_clauses (JObj [(''bool'', JObj [(''must'', JArr clauses)])]) = filter is_match clauses"
  by simp

lemma filter_must_clauses:
  "filter is_match (must_clauses term type_filter breadcrumb_filter) =
     breadcrumb_clauses 1 breadcrumb_filter"
  by (cases breadcrumb_filter)
     (simp_all add: must_clauses_def not_match_base filter_breadcrumb_clauses)

lemma match_clauses_build_query:
  "match_clauses (build_query term type_filter breadcrumb_filter) =
     breadcrumb_clauses 1 breadcrumb_filter"
proof (cases breadcrumb_filter)
  case Nil
  then show ?thesis
    by (simp add: build_query_def must_clauses_def match_clauses_base not_match_base)
next
  case (Cons b bs)
  then have "length (must_clauses term type_filter breadcrumb_filter) > 1"
    by (simp add: must_clauses_def)
  then have "build_query term type_filter breadcrumb_filter =
      JObj [(''bool'', JObj [(''must'', JArr (must_clauses term type_filter breadcrumb_filter))])]"
    by (simp add: build_query_def)
  then show ?thesis
    by (simp only: match_clauses_must filter_must_clauses)
qed

text \<open>
  C5. For a breadcrumb filter of length N the query that search builds has exactly N match
  clauses: the i-th is on the field \<open>breadcrumb_i\<close> (counted from 1) and carries the i-th
  member of the filter, so the values come in the order of the input.
\<close>

theorem breadcrumb_match_clauses:
  "match_clauses (build_query term type_filter breadcrumb_filter) =
     map (\<lambda>(i, b). JObj [(''match'', JObj [(''breadcrumb_'' @ str_nat i, b)])])
       (enumerate 1 breadcrumb_filter)
   \<and> length (match_clauses (build_query term type_filter breadcrumb_filter)) =
       length breadcrumb_filter"
proof -
  have "match_clauses (build_query term type_filter breadcrumb_filter) =
     map (\<lambda>(i, b). JObj [(''match'', JObj [(''breadcrumb_'' @ str_nat i, b)])])
       (enumerate 1 breadcrumb_filter)"
    by (simp only: match_clauses_build_query breadcrumb_clauses_enumerate)
  then show ?thesis by simp
qed

text \<open>
  C6. The query in the payload of search: with a type filter or a breadcrumb filter (or both)
  it is the conjunction \<open>bool\<close>, \<open>must\<close> whose first clause is the base scored query, followed
  by the type clause (when given) and the breadcrumb clauses; with neither it is the base
  scored query itself.
\<close>

theorem query_shape:
  "py_get (build_payload term start_index page_size type_filter breadcrumb_filter) ''query'' JNull =
     Inr (if type_filter \<noteq> [] \<or> breadcrumb_filter \<noteq> []
          then JObj [(''bool'', JObj [(''must'', JArr (base_query term
                 # (if type_filter \<noteq> []
                    then [JObj [(''term'', JObj [(''type'', JStr type_filter)])]] else [])
                 @ breadcrumb_clauses 1 breadcrumb_filter))])]
          else base_query term)"
  by (cases breadcrumb_filter)
     (simp_all add: build_payload_def build_query_def must_clauses_def)

theorem query_shape_witness:
  "py_get (build_payload ''etcd'' 0 30 ''Docs'' [JStr ''docs'']) ''query'' JNull =
     Inr (JObj [(''bool'', JObj [(''must'', JArr [base_query ''etcd'',
            JObj [(''term'', JObj [(''type'', JStr ''Docs'')])],
            JObj [(''match'', JObj [(''breadcrumb_'' @ str_nat 1, JStr ''docs'')])]])])])
   \<and> py_get (build_payload ''etcd'' 0 30 [] []) ''query'' JNull = Inr (base_query ''etcd'')"
  using query_shape [of "''etcd''" 0 30 "''Docs''" "[JStr ''docs'']"]
    query_shape [of "''etcd''" 0 30 "[]" "[]"]
  by simp

section \<open>Properties of search\<close>

text \<open>
  C3. Without a credential (the variable INTRANET_SESSION_COOKIE unset or empty), search with
  the type filter "Intranet" answers with the message about the missing authentication and
  sends no request.
\<close>

theorem intranet_filter_needs_credential:
  "\<not> is_authenticated w \<Longrightarrow>
   search w term start_index page_size ''Intranet'' breadcrumb_filter =
     ([], Inr (envelope intranet_filter_message))"
  by (simp add: search_def)

theorem intranet_filter_needs_credential_witness:
  "search \<lparr>session_cookie = None, http = (\<lambda>q. Inl (OtherError ''unreachable'')),
            json_loads = (\<lambda>t. JSONDecodeError ''no''), html_to_markdown = Inr, py312 = True\<rparr>
     ''cluster'' 0 30 ''Intranet'' [] = ([], Inr (envelope intranet_filter_message))"
  using intranet_filter_needs_credential
    [of "\<lparr>session_cookie = None, http = (\<lambda>q. Inl (OtherError ''unreachable'')),
          json_loads = (\<lambda>t. JSONDecodeError ''no''), html_to_markdown = Inr, py312 = True\<rparr>"
        "''cluster''" 0 30 "[]"]
  by (simp add: is_authenticated_def)


lemma str_nat_200: "str_nat 200 = ''200''"
  by (simp add: str_nat.simps digit_char_def)

text \<open>
  C2, evaluated for search. The server answers with a page of HTML that holds the phrase
  "Sign in to GitHub". search hands the text to \<open>json.loads\<close> first (line 293), before it
  looks for the phrase (line 303), and answers from the handler of the parse error: the
  message is "Invalid JSON response", not one about authentication, and it carries the first
  200 characters of the page, here the whole page.
\<close>

theorem search_sign_in_page_invalid_json:
  "snd (search (answering None sign_in_page) ''etcd'' 0 30 [] []) =
     Inr (envelope (cross_mark @ '' Invalid JSON response from server.'' @ nl @ nl
                    @ ''Response status: 200'' @ nl
                    @ ''Response preview: <html><head><title>Sign in to GitHub</title></head></html>''))"
  by (simp add: search_def is_authenticated_def answering_def sign_in_page_def bind_exn_def
      try_except_def search_response_def sample_loads_def invalid_json_message_def str_int_def
      str_nat_200 one_hit_text_def dq_def)

section \<open>Every tool answers with the envelope\<close>









section \<open>Properties of the page reads\<close>

lemma contains_html_upper: "contains ''html'' (lower ''text/HTML'')"
  by code_simp

text \<open>
  C8. A page is fetched (status 200, no sign-in phrase), its content type says HTML, and the
  conversion to markdown raises: the page read returns, in the envelope, the header
  "# Content from <url>", an empty line and the raw body of the response as it came, and no
  error message.
\<close>

theorem conversion_failure_returns_raw_body:
  assumes "http w (HttpGet url (get_auth_headers w)) = Inr r"
    and "\<not> contains sign_in_marker (response_text r)"
    and "status r = 200"
    and "contains ''html'' (lower (case content_type r of None \<Rightarrow> [] | Some c \<Rightarrow> c))"
    and "html_to_markdown w (response_text r) = Inl e"
  shows "read_url_content w url url_description =
           ([HttpGet url (get_auth_headers w)],
            Inr (envelope (''# Content from '' @ url @ nl @ nl @ response_text r)))"
  using assms
  by (simp add: read_url_content_def bind_exn_def try_except_def page_response_def
      convert_content_def content_header_def)

theorem conversion_failure_returns_raw_body_witness:
  "read_handbook_url
     ((answering None broken_page)\<lparr>html_to_markdown := (\<lambda>html. Inl (OtherError ''bad markup''))\<rparr>)
     ''https://handbook.giantswarm.io/docs/'' =
   ([HttpGet ''https://handbook.giantswarm.io/docs/'' None],
    Inr (envelope (''# Content from https://handbook.giantswarm.io/docs/'' @ nl @ nl @ ''<p>unclosed'')))"
  using conversion_failure_returns_raw_body
    [of "(answering None broken_page)\<lparr>html_to_markdown := (\<lambda>html. Inl (OtherError ''bad markup''))\<rparr>"
        "''https://handbook.giantswarm.io/docs/''" broken_page "OtherError ''bad markup''" "''Handbook''"]
  by (simp add: answering_def broken_page_def get_auth_headers_def read_handbook_url_def
      starts_with_def sign_in_marker_def contains_html_upper)

section \<open>Properties of the report\<close>

lemma search_success:
  assumes "http w (search_request w term s p tf bs) = Inr r"
    and "json_loads w (response_text r) = Parsed j"
    and "\<not> contains sign_in_marker (response_text r)"
    and "\<not> starts_with (strip (response_text r)) ''<''"
    and "status r = 200"
    and "is_authenticated w \<or> tf \<noteq> ''Intranet''"
  shows "search w term s p tf bs =
     ([search_request w term s p tf bs],
      try_except (process_results (py312 w) (is_authenticated w) term s j)
        (\<lambda>error. Inr (envelope (''Error accessing '' @ search_url w @ '': '' @ str_exn error))))"
  using assms
  by (auto simp: search_def Let_def bind_exn_def search_response_def)

lemma bind_exn_Inr:
  "bind_exn m f = Inr y \<Longrightarrow> \<exists>x. m = Inr x \<and> f x = Inr y"
  by (cases m) (simp_all add: bind_exn_def)

lemma bind_exn_InrE:
  assumes "bind_exn m f = Inr y"
  obtains x where "m = Inr x" and "f x = Inr y"
  using assms by (cases m) (simp_all add: bind_exn_def)

lemma render_hit_number:
  "render_hit n hit = Inr e \<Longrightarrow> \<exists>rest. e = str_int n @ ''. **['' @ rest"
  unfolding render_hit_def
  by (auto dest!: bind_exn_Inr)

lemma render_hits_numbered:
  "render_hits n items = Inr entries \<Longrightarrow>
   \<exists>es. entries = concat es \<and> length es = length items \<and>
        (\<forall>k<length items. render_hit (n + int k) (items ! k) = Inr (es ! k))"
proof (induction items arbitrary: n entries)
  case Nil
  then show ?case by simp
next
  case (Cons hit rest)
  from Cons.prems obtain e es0 where e: "render_hit n hit = Inr e"
    and r: "render_hits (n + 1) rest = Inr es0" and ent: "entries = e @ es0"
    by (auto dest!: bind_exn_Inr)
  from Cons.IH [OF r] obtain es where es: "es0 = concat es" "length es = length rest"
    "\<forall>k<length rest. render_hit (n + 1 + int k) (rest ! k) = Inr (es ! k)"
    by blast
  have "\<forall>k<length (hit # rest). render_hit (n + int k) ((hit # rest) ! k) = Inr ((e # es) ! k)"
  proof (intro allI impI)
    fix k assume k: "k < length (hit # rest)"
    show "render_hit (n + int k) ((hit # rest) ! k) = Inr ((e # es) ! k)"
    proof (cases k)
      case 0
      then show ?thesis using e by simp
    next
      case (Suc k')
      then have "k' < length rest" using k by simp
      then have "render_hit (n + 1 + int k') (rest ! k') = Inr (es ! k')" using es(3) by blast
      moreover have "n + 1 + int k' = n + int k" using Suc by simp
      ultimately show ?thesis using Suc by simp
    qed
  qed
  then show ?case using ent es by (intro exI [of _ "e # es"]) simp
qed

lemma render_results_report:
  assumes "render_results v a term s j = Inr report"
  shows "\<exists>hits total count items entries.
     py_len hits = Inr count \<and> py_iter hits = Inr items \<and>
     render_hits (s + 1) items = Inr entries \<and>
     report = ''# Search results for '' @ term @ nl @ nl
            @ (if \<not> a then public_note else [])
            @ summary_line count total s @ nl @ nl @ entries"
  using assms unfolding render_results_def
  by (elim bind_exn_InrE) (simp only: sum.inject, blast)

lemma py_len_iter: "py_len hits = Inr count \<Longrightarrow> py_iter hits = Inr items \<Longrightarrow> length items = count"
  by (cases hits) auto


text \<open>
  C7. A search that succeeds: the response is classified as success (status 200, a body that
  parses, no sign-in phrase, no leading \<open><\<close>) and the report is rendered. The answer is that
  report. Its summary line reads "Showing N out of T search results", followed by
  ", starting at start_index + 1" when start_index > 0 and by nothing when it is not (so not
  when start_index = 0); the entries follow, one per hit, the k-th (from 0) beginning with the
  number start_index + 1 + k.
\<close>

theorem report_offset_and_numbering:
  assumes "http w (search_request w term start_index page_size type_filter breadcrumb_filter) = Inr r"
    and "json_loads w (response_text r) = Parsed response_json"
    and "\<not> contains sign_in_marker (response_text r)"
    and "\<not> starts_with (strip (response_text r)) ''<''"
    and "status r = 200"
    and "is_authenticated w \<or> type_filter \<noteq> ''Intranet''"
    and "render_results (py312 w) (is_authenticated w) term start_index response_json = Inr report"
  shows "snd (search w term start_index page_size type_filter breadcrumb_filter) = Inr (envelope report)
    \<and> (\<exists>total es.
          report = ''# Search results for '' @ term @ nl @ nl
            @ (if is_authenticated w then [] else public_note)
            @ ''Showing '' @ str_nat (length es) @ '' out of '' @ py_str total @ '' search results''
            @ (if start_index > 0 then '', starting at '' @ str_int (start_index + 1) else [])
            @ nl @ nl @ concat es
          \<and> (\<forall>k<length es. \<exists>rest. es ! k = str_int (start_index + 1 + int k) @ ''. **['' @ rest))"
proof -
  have "process_results (py312 w) (is_authenticated w) term start_index response_json =
          Inr (envelope report)"
    using assms(7) by (simp add: process_results_def)
  then have s: "snd (search w term start_index page_size type_filter breadcrumb_filter) =
      Inr (envelope report)"
    using search_success [OF assms(1-6)] by (simp add: try_except_def)
  from render_results_report [OF assms(7)] obtain hits total count items entries where
    len: "py_len hits = Inr count" and it: "py_iter hits = Inr items" and
    rh: "render_hits (start_index + 1) items = Inr entries" and
    rep: "report = ''# Search results for '' @ term @ nl @ nl
            @ (if \<not> is_authenticated w then public_note else [])
            @ summary_line count total start_index @ nl @ nl @ entries"
    by blast
  from render_hits_numbered [OF rh] obtain es where es: "entries = concat es"
    "length es = length items"
    "\<forall>k<length items. render_hit (start_index + 1 + int k) (items ! k) = Inr (es ! k)"
    by blast
  have cnt: "count = length es" using py_len_iter [OF len it] es(2) by simp
  have num: "\<forall>k<length es. \<exists>rest. es ! k = str_int (start_index + 1 + int k) @ ''. **['' @ rest"
    using es(2,3) render_hit_number by metis
  have "report = ''# Search results for '' @ term @ nl @ nl
            @ (if is_authenticated w then [] else public_note)
            @ ''Showing '' @ str_nat (length es) @ '' out of '' @ py_str total @ '' search results''
            @ (if start_index > 0 then '', starting at '' @ str_int (start_index + 1) else [])
            @ nl @ nl @ concat es"
    unfolding rep es(1) cnt summary_line_def by simp
  with num s show ?thesis by blast
qed


text \<open>The one-hit answer, asked for from start_index 30: "starting at 31" and entry 31.\<close>

lemma one_hit_text_plain:
  "\<not> contains sign_in_marker one_hit_text \<and> \<not> starts_with (strip one_hit_text) ''<''"
  by code_simp

lemma one_hit_report:
  "render_results True False ''A'' 30 one_hit_json =
     Inr (''# Search results for A'' @ nl @ nl @ public_note
          @ ''Showing 1 out of 1 search results, starting at 31'' @ nl @ nl
          @ ''31. **[A](u)**'' @ nl
          @ ''   **Type:** Docs'' @ nl
          @ ''   **Breadcrumb:** x / y'' @ nl @ nl)"
  by (simp add: render_results_def one_hit_json_def bind_exn_def probe_hit_def render_hit_def
      summary_line_def str_int_def str_nat.simps digit_char_def nl_def)

theorem report_offset_and_numbering_witness:
  "snd (search (answering None (ok_json one_hit_text)) ''A'' 30 30 [] []) =
     Inr (envelope (''# Search results for A'' @ nl @ nl @ public_note
          @ ''Showing 1 out of 1 search results, starting at 31'' @ nl @ nl
          @ ''31. **[A](u)**'' @ nl
          @ ''   **Type:** Docs'' @ nl
          @ ''   **Breadcrumb:** x / y'' @ nl @ nl))"
proof -
  let ?w = "answering None (ok_json one_hit_text)"
  have h1: "http ?w (search_request ?w ''A'' 30 30 [] []) = Inr (ok_json one_hit_text)"
    by (simp add: answering_def)
  have h2: "json_loads ?w (response_text (ok_json one_hit_text)) = Parsed one_hit_json"
    by (simp add: answering_def ok_json_def sample_loads_def one_hit_text_def dq_def)
  have h3: "\<not> contains sign_in_marker (response_text (ok_json one_hit_text))"
    and h4: "\<not> starts_with (strip (response_text (ok_json one_hit_text))) ''<''"
    using one_hit_text_plain by (simp_all add: ok_json_def)
  have h5: "status (ok_json one_hit_text) = 200"
    by (simp add: ok_json_def)
  have h6: "is_authenticated ?w \<or> [] \<noteq> ''Intranet''"
    by simp
  have h7: "render_results (py312 ?w) (is_authenticated ?w) ''A'' 30 one_hit_json = Inr
         (''# Search results for A'' @ nl @ nl @ public_note
          @ ''Showing 1 out of 1 search results, starting at 31'' @ nl @ nl
          @ ''31. **[A](u)**'' @ nl
          @ ''   **Type:** Docs'' @ nl
          @ ''   **Breadcrumb:** x / y'' @ nl @ nl)"
    using one_hit_report by (simp add: answering_def is_authenticated_def)
  from report_offset_and_numbering [OF h1 h2 h3 h4 h5 h6 h7] show ?thesis
    by blast
qed

section \<open>Missing keys in the answer of the endpoint\<close>











section \<open>Rendering a hit\<close>

text \<open>
  C10, as stated, fails: rendering is not total over arbitrary hit records. For a hit whose
  \<open>highlight.body\<close> is the empty list, \<open>[0]\<close> of line 370 raises IndexError; the rendering of
  a response with this hit raises with it (search then answers from its outer handler).
\<close>

theorem empty_excerpt_list_raises:
  "render_hit 1 no_excerpt_hit = Inl (IndexError ''list index out of range'')
   \<and> render_results True False ''etcd'' 0
       (JObj [(''hits'', JObj [(''hits'', JArr [no_excerpt_hit]), (''total'', JInt 1)])]) =
     Inl (IndexError ''list index out of range'')"
  by (simp add: render_hit_def render_results_def no_excerpt_hit_def bind_exn_def probe_hit_def)

lemma join_items_strings: "join_items i (map JStr ss) = Inr ss"
  by (induction ss arbitrary: i) (simp_all add: bind_exn_def)

text \<open>
  C10, amended. A hit that is an object, whose \<open>_source\<close> is missing or an object, whose
  \<open>breadcrumb\<close> is missing or a list of strings, whose \<open>highlight\<close> is missing or an object
  and whose \<open>highlight.body\<close> is missing or a non-empty list, is rendered without raising.
  Every missing field is rendered by its default (\<open>dict_get\<close> gives the default for a missing
  key): empty title, link target "No URL", type "Unknown", empty breadcrumb path. The
  description line is there exactly when the description is not the empty string, the excerpt
  line exactly when the excerpt is truthy.
\<close>

theorem well_shaped_hit_renders:
  assumes "dict_get hit ''_source'' (JObj []) = JObj source"
    and "dict_get source ''breadcrumb'' (JArr []) = JArr (map JStr crumbs)"
    and "dict_get hit ''highlight'' (JObj []) = JObj highlight"
    and "dict_get highlight ''body'' (JArr [JStr []]) = JArr (excerpt # others)"
  shows "render_hit n (JObj hit) =
     Inr (str_int n @ ''. **['' @ py_str (dict_get source ''title'' (JStr [])) @ '']('' 
          @ py_str (dict_get source ''url'' (JStr ''No URL'')) @ '')**'' @ nl
          @ ''   **Type:** '' @ py_str (dict_get source ''type'' (JStr ''Unknown'')) @ nl
          @ ''   **Breadcrumb:** '' @ join '' / '' crumbs @ nl
          @ (if dict_get source ''description'' (JStr []) \<noteq> JStr []
             then ''   **Description:** '' @ py_str (dict_get source ''description'' (JStr [])) @ nl
             else [])
          @ (if truthy excerpt then ''   **Excerpt:** '' @ py_str excerpt @ nl else [])
          @ nl)"
  using assms
  by (simp add: render_hit_def bind_exn_def join_items_strings)

theorem well_shaped_hit_renders_witness:
  "render_hit 7 (JObj []) =
     Inr (''7. **[](No URL)**'' @ nl @ ''   **Type:** Unknown'' @ nl @ ''   **Breadcrumb:** '' @ nl @ nl)"
proof -
  have seven: "str_int 7 = ''7''"
    by (simp add: str_int_def str_nat.simps digit_char_def)
  have "dict_get [] ''_source'' (JObj []) = JObj []"
    and "dict_get [] ''breadcrumb'' (JArr []) = JArr (map JStr [])"
    and "dict_get [] ''highlight'' (JObj []) = JObj []"
    and "dict_get [] ''body'' (JArr [JStr []]) = JArr (JStr [] # [])"
    by simp_all
  from well_shaped_hit_renders [OF this, of 7] show ?thesis
    using seven by simp
qed

section \<open>Properties of the cleaning\<close>

lemma cleaned_lines_collapse:
  "cleaned_lines p ls =
     (if p then collapse_runs (dropWhile (\<lambda>x. x = []) (map rstrip ls))
      else collapse_runs (map rstrip ls))"
  by (induction ls arbitrary: p) (auto simp: Let_def)

lemma rstrip_nonspace: "rstrip l = l \<Longrightarrow> l \<noteq> [] \<Longrightarrow> \<exists>c\<in>set l. \<not> py_isspace c"
proof -
  assume a: "rstrip l = l" and ne: "l \<noteq> []"
  have "dropWhile py_isspace (rev l) = rev l"
    using a by (metis rstrip_def rev_rev_ident)
  then have "\<not> py_isspace (hd (rev l))"
    using ne by (metis hd_dropWhile rev_is_Nil_conv)
  moreover have "hd (rev l) \<in> set l" using ne by (metis hd_in_set rev_is_Nil_conv set_rev)
  ultimately show ?thesis by blast
qed

lemma rstrip_idem: "rstrip (rstrip l) = rstrip l"
  unfolding rstrip_def by (simp add: dropWhile_idem)

lemma join_Cons: "join sep (l # ls) = (if ls = [] then l else l @ sep @ join sep ls)"
  by (cases ls) simp_all

lemma nl_space: "py_isspace (CHR 0x0A)"
  by code_simp

lemma dropWhile_join:
  assumes "\<forall>l\<in>set L. l \<noteq> [] \<longrightarrow> (\<exists>c\<in>set l. \<not> py_isspace c)"
  shows "dropWhile py_isspace (join nl L) =
     join nl (case dropWhile (\<lambda>x. x = []) L of [] \<Rightarrow> [] | l # rest \<Rightarrow> dropWhile py_isspace l # rest)"
  using assms
proof (induction L)
  case Nil
  then show ?case by simp
next
  case (Cons l L)
  show ?case
  proof (cases "l = []")
    case True
    then show ?thesis using Cons by (simp add: join_Cons nl_def nl_space)
  next
    case False
    then obtain c where "c \<in> set l" "\<not> py_isspace c" using Cons.prems by auto
    then have "\<And>rest. dropWhile py_isspace (l @ rest) = dropWhile py_isspace l @ rest"
      by (simp add: dropWhile_append1)
    then show ?thesis using False by (simp add: join_Cons)
  qed
qed


lemma rstrip_fix_iff: "rstrip x = x \<longleftrightarrow> x = [] \<or> \<not> py_isspace (last x)"
proof -
  have "rstrip x = x \<longleftrightarrow> dropWhile py_isspace (rev x) = rev x"
    unfolding rstrip_def by (metis rev_rev_ident)
  also have "\<dots> \<longleftrightarrow> rev x = [] \<or> \<not> py_isspace (hd (rev x))"
    by (simp add: dropWhile_eq_self_iff)
  finally show ?thesis by (simp add: hd_rev)
qed

lemma rstrip_lstrip:
  assumes "rstrip l = l"
  shows "rstrip (lstrip l) = lstrip l"
proof (cases "lstrip l = []")
  case True
  then show ?thesis by (simp add: rstrip_def)
next
  case False
  have "l = takeWhile py_isspace l @ lstrip l"
    by (simp add: lstrip_def)
  then have "last l = last (lstrip l)"
    using False by (metis last_appendR)
  moreover have "l \<noteq> []" using False by (auto simp: lstrip_def)
  ultimately have "\<not> py_isspace (last (lstrip l))"
    using assms rstrip_fix_iff by metis
  then show ?thesis by (simp add: rstrip_fix_iff)
qed

lemma lstrip_join:
  assumes "\<forall>l\<in>set L. rstrip l = l"
  shows "lstrip (join nl L) = join nl (lstrip_first (drop_leading_blank L))"
proof -
  have c: "\<forall>l\<in>set L. l \<noteq> [] \<longrightarrow> (\<exists>c\<in>set l. \<not> py_isspace c)"
    using assms rstrip_nonspace by blast
  have "(case dropWhile (\<lambda>x. x = []) L of [] \<Rightarrow> [] | l # rest \<Rightarrow> dropWhile py_isspace l # rest)
      = lstrip_first (drop_leading_blank L)"
  proof (cases "dropWhile (\<lambda>x. x = []) L")
    case Nil
    show ?thesis unfolding drop_leading_blank_def Nil by simp
  next
    case (Cons l rest)
    show ?thesis unfolding drop_leading_blank_def Cons by (simp add: lstrip_def)
  qed
  then show ?thesis
    using dropWhile_join [OF c] by (simp add: lstrip_def)
qed

lemma rev_join: "rev (join nl L) = join nl (rev (map rev L))"
proof (induction L)
  case Nil
  then show ?case by simp
next
  case (Cons l L)
  have app: "\<And>xs y. join nl (xs @ [y]) = (if xs = [] then y else join nl xs @ nl @ y)"
  proof -
    fix xs :: "string list" and y
    show "join nl (xs @ [y]) = (if xs = [] then y else join nl xs @ nl @ y)"
      by (induction xs) (auto simp: join_Cons)
  qed
  have rn: "rev nl = nl"
    by (simp add: nl_def)
  show ?case
    using Cons by (auto simp: join_Cons app rn)
qed

lemma rstrip_join:
  assumes "\<forall>l\<in>set M. rstrip l = l"
  shows "rstrip (join nl M) = join nl (drop_trailing_blank M)"
proof -
  let ?R = "rev (map rev M)"
  have c: "\<forall>r\<in>set ?R. r \<noteq> [] \<longrightarrow> (\<exists>c\<in>set r. \<not> py_isspace c)"
    using assms rstrip_nonspace by fastforce
  have fx: "\<forall>r\<in>set ?R. dropWhile py_isspace r = r"
    using assms by (auto simp: rstrip_def) (metis rev_rev_ident)
  have "(case dropWhile (\<lambda>x. x = []) ?R of [] \<Rightarrow> [] | r # rest \<Rightarrow> dropWhile py_isspace r # rest)
      = dropWhile (\<lambda>x. x = []) ?R"
  proof (cases "dropWhile (\<lambda>x. x = []) ?R")
    case Nil
    show ?thesis unfolding Nil by simp
  next
    case (Cons r rest)
    then have "r \<in> set ?R" by (metis list.set_intros(1) set_dropWhileD)
    then have "dropWhile py_isspace r = r" using fx by blast
    then show ?thesis unfolding Cons by simp
  qed
  then have d: "dropWhile py_isspace (join nl ?R) = join nl (dropWhile (\<lambda>x. x = []) ?R)"
    using dropWhile_join [OF c] by simp
  have "dropWhile (\<lambda>x. x = []) ?R = map rev (dropWhile (\<lambda>x. x = []) (rev M))"
    by (simp add: rev_map dropWhile_map comp_def)
  then have "rev (join nl (dropWhile (\<lambda>x. x = []) ?R)) = join nl (drop_trailing_blank M)"
    by (simp add: rev_join drop_trailing_blank_def rev_map comp_def)
  then show ?thesis
    using d by (simp add: rstrip_def rev_join)
qed

lemma collapse_runs_subset: "set (collapse_runs xs) \<subseteq> insert [] (set xs)"
proof (induction xs rule: collapse_runs.induct)
  case 1
  then show ?case by simp
next
  case (2 l ls)
  show ?case
  proof (cases "l = []")
    case True
    then show ?thesis using 2 by (auto dest: set_dropWhileD)
  next
    case False
    then show ?thesis using 2 by auto
  qed
qed

lemma rstrip_Nil: "rstrip [] = []"
  by (simp add: rstrip_def)

lemma clean_whitespace_collapses_and_trims:
  "clean_whitespace markdown_content =
     join nl (drop_trailing_blank (lstrip_first (drop_leading_blank
       (collapse_runs (map rstrip (split_lines markdown_content))))))"
proof -
  let ?L = "collapse_runs (map rstrip (split_lines markdown_content))"
  have L: "\<forall>l\<in>set ?L. rstrip l = l"
    using collapse_runs_subset [of "map rstrip (split_lines markdown_content)"]
    by (auto simp: rstrip_idem rstrip_Nil)
  let ?M = "lstrip_first (drop_leading_blank ?L)"
  have M: "\<forall>l\<in>set ?M. rstrip l = l"
  proof (cases "drop_leading_blank ?L")
    case Nil
    then show ?thesis by simp
  next
    case (Cons l rest)
    then have "set (l # rest) \<subseteq> set ?L"
      by (metis drop_leading_blank_def set_dropWhileD subsetI)
    then show ?thesis using Cons L by (auto simp: rstrip_lstrip)
  qed
  have "clean_whitespace markdown_content = rstrip (lstrip (join nl ?L))"
    by (simp add: clean_whitespace_def strip_def cleaned_lines_collapse)
  then show ?thesis
    using lstrip_join [OF L] rstrip_join [OF M] by simp
qed


lemma adjacent_blank_Cons:
  "adjacent_blank (a # xs) = (xs \<noteq> [] \<and> ((a = [] \<and> hd xs = []) \<or> adjacent_blank xs))"
  by (cases xs) auto

lemma adjacent_blank_snoc:
  "adjacent_blank (xs @ [a]) = (adjacent_blank xs \<or> (xs \<noteq> [] \<and> last xs = [] \<and> a = []))"
  by (induction xs rule: adjacent_blank.induct) auto

lemma adjacent_blank_rev: "adjacent_blank (rev xs) = adjacent_blank xs"
proof (induction xs)
  case Nil
  then show ?case by simp
next
  case (Cons a xs)
  have "adjacent_blank (rev (a # xs)) =
      (adjacent_blank xs \<or> (xs \<noteq> [] \<and> hd xs = [] \<and> a = []))"
    using Cons by (simp add: adjacent_blank_snoc last_rev)
  also have "\<dots> = adjacent_blank (a # xs)"
    by (cases xs) auto
  finally show ?case .
qed

lemma adjacent_blank_dropWhile:
  "\<not> adjacent_blank xs \<Longrightarrow> \<not> adjacent_blank (dropWhile P xs)"
  by (induction xs) (auto simp: adjacent_blank_Cons)

lemma collapse_runs_hd:
  "collapse_runs (dropWhile (\<lambda>x. x = []) ls) = [] \<or> hd (collapse_runs (dropWhile (\<lambda>x. x = []) ls)) \<noteq> []"
proof (cases "dropWhile (\<lambda>x. x = []) ls")
  case Nil
  show ?thesis unfolding Nil by simp
next
  case (Cons l rest)
  then have "l \<noteq> []" by (metis (mono_tags, lifting) hd_dropWhile list.sel(1) list.simps(3))
  then show ?thesis unfolding Cons by simp
qed

lemma collapse_runs_no_adjacent: "\<not> adjacent_blank (collapse_runs xs)"
proof (induction xs rule: collapse_runs.induct)
  case 1
  then show ?case by simp
next
  case (2 l ls)
  show ?case
  proof (cases "l = []")
    case True
    then show ?thesis
      using 2 collapse_runs_hd [of ls] by (auto simp: adjacent_blank_Cons)
  next
    case False
    then show ?thesis using 2 by (auto simp: adjacent_blank_Cons)
  qed
qed

lemma collapse_runs_keeps_text:
  "filter (\<lambda>l. l \<noteq> []) (collapse_runs xs) = filter (\<lambda>l. l \<noteq> []) xs"
proof (induction xs rule: collapse_runs.induct)
  case 1
  then show ?case by simp
next
  case (2 l ls)
  have "filter (\<lambda>l. l \<noteq> []) (dropWhile (\<lambda>x. x = []) ls) = filter (\<lambda>l. l \<noteq> []) ls"
    by (induction ls) auto
  then show ?case using 2 by auto
qed


lemma lstrip_nonempty: "rstrip l = l \<Longrightarrow> l \<noteq> [] \<Longrightarrow> lstrip l \<noteq> []"
  using rstrip_nonspace [of l] by (auto simp: lstrip_def)

lemma collapse_runs_rstripped:
  "\<forall>l\<in>set (collapse_runs (map rstrip ls)). rstrip l = l"
  using collapse_runs_subset [of "map rstrip ls"]
  by (auto simp: rstrip_idem rstrip_Nil)

lemma normal_lines_shape:
  "\<not> adjacent_blank (normal_lines md)
   \<and> (normal_lines md = [] \<or> (hd (normal_lines md) \<noteq> [] \<and> last (normal_lines md) \<noteq> []))"
proof -
  let ?C = "collapse_runs (map rstrip (split_lines md))"
  let ?D = "drop_leading_blank ?C"
  let ?E = "lstrip_first ?D"
  let ?K = "drop_trailing_blank ?E"
  have D1: "\<not> adjacent_blank ?D"
    using collapse_runs_no_adjacent by (simp add: drop_leading_blank_def adjacent_blank_dropWhile)
  have E: "\<not> adjacent_blank ?E \<and> (?E = [] \<or> hd ?E \<noteq> [])"
  proof (cases ?D)
    case Nil
    then show ?thesis by simp
  next
    case (Cons l rest)
    then have ne: "l \<noteq> []"
      unfolding drop_leading_blank_def
      by (metis (mono_tags, lifting) hd_dropWhile list.sel(1) list.simps(3))
    have "l \<in> set ?C"
      using Cons unfolding drop_leading_blank_def
      by (metis list.set_intros(1) set_dropWhileD)
    then have "rstrip l = l" using collapse_runs_rstripped by blast
    then have "lstrip l \<noteq> []" using ne lstrip_nonempty by blast
    moreover have "\<not> adjacent_blank (l # rest)" using D1 Cons by simp
    ultimately show ?thesis using Cons ne by (simp add: adjacent_blank_Cons)
  qed
  have K1: "\<not> adjacent_blank ?K"
    using E by (simp add: drop_trailing_blank_def adjacent_blank_rev adjacent_blank_dropWhile)
  have split: "?E = ?K @ rev (takeWhile (\<lambda>x. x = []) (rev ?E))"
    unfolding drop_trailing_blank_def
    by (metis rev_append rev_rev_ident takeWhile_dropWhile_id)
  have K2: "?K = [] \<or> (hd ?K \<noteq> [] \<and> last ?K \<noteq> [])"
  proof (cases "?K = []")
    case True
    then show ?thesis by simp
  next
    case False
    then have "hd ?E = hd ?K" using split by (metis hd_append2)
    moreover have "?E \<noteq> []" using False split by (metis append_is_Nil_conv)
    ultimately have h: "hd ?K \<noteq> []" using E by simp
    have "dropWhile (\<lambda>x. x = []) (rev ?E) \<noteq> []"
      using False by (simp add: drop_trailing_blank_def)
    then have "hd (dropWhile (\<lambda>x. x = []) (rev ?E)) \<noteq> []"
      by (metis (mono_tags, lifting) hd_dropWhile)
    then have "last ?K \<noteq> []"
      by (simp add: drop_trailing_blank_def last_rev)
    then show ?thesis using h by simp
  qed
  show ?thesis using K1 K2 by (simp add: normal_lines_def)
qed

lemma read_url_content_html:
  assumes "http w (HttpGet url (get_auth_headers w)) = Inr r"
    and "\<not> contains sign_in_marker (response_text r)"
    and "status r = 200"
    and "contains ''html'' (lower (case content_type r of None \<Rightarrow> [] | Some c \<Rightarrow> c))"
    and "html_to_markdown w (response_text r) = Inr markdown_content"
  shows "read_url_content w url url_description =
           ([HttpGet url (get_auth_headers w)],
            Inr (envelope (content_header url @ clean_whitespace markdown_content)))"
  using assms
  by (simp add: read_url_content_def bind_exn_def try_except_def page_response_def
      convert_content_def)

text \<open>
  C9. A page is fetched (status 200, no sign-in phrase), its content type says HTML and the
  conversion gives a text. The page read returns the header and the lines \<open>normal_lines\<close> of
  that text, joined by newlines: the lines of the converted text without their trailing white
  space, every run of blank lines collapsed to one blank line, the blank lines in front and
  at the end removed (and the white space in front of the first line). Among these lines no
  two blank lines follow each other, and neither the first nor the last is blank.
\<close>

theorem html_page_blank_lines_collapsed:
  assumes "http w (HttpGet url (get_auth_headers w)) = Inr r"
    and "\<not> contains sign_in_marker (response_text r)"
    and "status r = 200"
    and "contains ''html'' (lower (case content_type r of None \<Rightarrow> [] | Some c \<Rightarrow> c))"
    and "html_to_markdown w (response_text r) = Inr markdown_content"
  shows "read_url_content w url url_description =
           ([HttpGet url (get_auth_headers w)],
            Inr (envelope (''# Content from '' @ url @ nl @ nl
                           @ join nl (normal_lines markdown_content))))
    \<and> \<not> adjacent_blank (normal_lines markdown_content)
    \<and> (normal_lines markdown_content = []
        \<or> (hd (normal_lines markdown_content) \<noteq> [] \<and> last (normal_lines markdown_content) \<noteq> []))"
  using read_url_content_html [OF assms] clean_whitespace_collapses_and_trims [of markdown_content]
    normal_lines_shape [of markdown_content]
  by (simp add: normal_lines_def content_header_def)

lemma spaced_markdown_lines: "normal_lines spaced_markdown = [''Title'', [], ''Body'']"
  by code_simp

lemma contains_html_plain: "contains ''html'' (lower ''text/html'')"
  by code_simp

lemma spaced_page_plain: "\<not> contains sign_in_marker ''<h1>Title</h1><p>Body</p>''"
  by code_simp

theorem html_page_blank_lines_collapsed_witness:
  "read_handbook_url
     ((answering None spaced_page)\<lparr>html_to_markdown := (\<lambda>html. Inr spaced_markdown)\<rparr>)
     ''https://handbook.giantswarm.io/docs/'' =
   ([HttpGet ''https://handbook.giantswarm.io/docs/'' None],
    Inr (envelope (''# Content from https://handbook.giantswarm.io/docs/'' @ nl @ nl
                   @ ''Title'' @ nl @ nl @ ''Body'')))"
proof -
  let ?w = "(answering None spaced_page)\<lparr>html_to_markdown := (\<lambda>html. Inr spaced_markdown)\<rparr>"
  let ?url = "''https://handbook.giantswarm.io/docs/''"
  have h1: "http ?w (HttpGet ?url (get_auth_headers ?w)) = Inr spaced_page"
    by (simp add: answering_def)
  have h2: "\<not> contains sign_in_marker (response_text spaced_page)"
    using spaced_page_plain by (simp add: spaced_page_def)
  have h3: "status spaced_page = 200"
    by (simp add: spaced_page_def)
  have h4: "contains ''html'' (lower (case content_type spaced_page of None \<Rightarrow> [] | Some c \<Rightarrow> c))"
    using contains_html_plain by (simp add: spaced_page_def)
  have h5: "html_to_markdown ?w (response_text spaced_page) = Inr spaced_markdown"
    by (simp add: answering_def)
  have au: "get_auth_headers ?w = None"
    by (simp add: get_auth_headers_def answering_def)
  from html_page_blank_lines_collapsed [OF h1 h2 h3 h4 h5, of "''Handbook''"] show ?thesis
    by (simp add: spaced_markdown_lines read_handbook_url_def starts_with_def au)
qed

end
